theory Spec2Isabelle
  imports Complex_Main
begin

section \<open>Setup verification script: the check runner and its reporting\<close>

text \<open>
  A shallow embedding of \<^verbatim>\<open>verify_setup.py\<close>. The class \<^verbatim>\<open>SetupVerifier\<close> becomes a
  record that is passed through every method; what the script prints is collected, one
  entry per \<^verbatim>\<open>print\<close> call, in the field \<open>out\<close>. Everything the script asks of the
  machine it runs on (interpreter version, environment variables, imports, the network,
  the file system) is read from a record \<open>env\<close>.

  Three things are taken for granted: \<^verbatim>\<open>print\<close> itself does not fail; the user's interrupt
  arrives while one of the probes of the six counted checks is running (that is where the
  script waits); and the success rate and the accuracy, floats in the script, are the
  numbers those floats stand for.
\<close>

subsection \<open>Exceptions\<close>

text \<open>
  The classes of exception the source names in its handlers or raises itself.
  \<open>Exception m\<close> stands for an instance of any other subclass of Python's
  \<^verbatim>\<open>Exception\<close> whose \<^verbatim>\<open>str\<close> is \<open>m\<close>. \<^verbatim>\<open>ImportError\<close> and \<^verbatim>\<open>ZeroDivisionError\<close> are
  subclasses of \<^verbatim>\<open>Exception\<close>; \<^verbatim>\<open>KeyboardInterrupt\<close> derives from \<^verbatim>\<open>BaseException\<close>
  only, so a handler \<^verbatim>\<open>except Exception\<close> lets it pass. \<^verbatim>\<open>SystemExit\<close>, which \<^verbatim>\<open>sys.exit\<close>
  raises at the end of \<^verbatim>\<open>main\<close>, is not a value of this type: \<open>main\<close> returns the exit status.
\<close>

datatype exn =
    Exception string
  | ImportError string
  | ZeroDivisionError string
  | KeyboardInterrupt

fun is_Exception :: "exn \<Rightarrow> bool" where
  "is_Exception KeyboardInterrupt = False"
| "is_Exception _ = True"

fun is_ImportError :: "exn \<Rightarrow> bool" where
  "is_ImportError (ImportError _) = True"
| "is_ImportError _ = False"

fun str :: "exn \<Rightarrow> string" where
  "str (Exception m) = m"
| "str (ImportError m) = m"
| "str (ZeroDivisionError m) = m"
| "str KeyboardInterrupt = []"

subsection \<open>Printed lines\<close>

text \<open>
  One value per \<^verbatim>\<open>print\<close> call. Two lines of the script format a float
  (\<^verbatim>\<open>{success_rate:.1f}\<close> and \<^verbatim>\<open>{accuracy:.2%}\<close>); their digits are not computed here,
  the line keeps the number between the text before and after it.
\<close>

datatype line =
    Text string
  | Float1f string real string
  | Percent2 string real string

text \<open>The non-ASCII glyphs of the script, as their UTF-8 bytes.\<close>

definition CHECK_MARK :: string where
  "CHECK_MARK = [CHR 0xE2, CHR 0x9C, CHR 0x85]"

definition CROSS_MARK :: string where
  "CROSS_MARK = [CHR 0xE2, CHR 0x9D, CHR 0x8C]"

definition WARNING_SIGN :: string where
  "WARNING_SIGN = [CHR 0xE2, CHR 0x9A, CHR 0xA0, CHR 0xEF, CHR 0xB8, CHR 0x8F]"

definition LOCK :: string where
  "LOCK = [CHR 0xF0, CHR 0x9F, CHR 0x94, CHR 0x90]"

definition CLIPBOARD :: string where
  "CLIPBOARD = [CHR 0xF0, CHR 0x9F, CHR 0x93, CHR 0x8B]"

definition BAR_CHART :: string where
  "BAR_CHART = [CHR 0xF0, CHR 0x9F, CHR 0x93, CHR 0x8A]"

definition PARTY :: string where
  "PARTY = [CHR 0xF0, CHR 0x9F, CHR 0x8E, CHR 0x89]"

definition ROCKET :: string where
  "ROCKET = [CHR 0xF0, CHR 0x9F, CHR 0x9A, CHR 0x80]"

definition THUMBS_UP :: string where
  "THUMBS_UP = [CHR 0xF0, CHR 0x9F, CHR 0x91, CHR 0x8D]"

definition LIGHT_BULB :: string where
  "LIGHT_BULB = [CHR 0xF0, CHR 0x9F, CHR 0x92, CHR 0xA1]"

definition BULLET :: string where
  "BULLET = [CHR 0xE2, CHR 0x80, CHR 0xA2]"

definition NL :: string where
  "NL = [CHR 0x0A]"

subsection \<open>The verifier's state\<close>

record verifier =
  errors :: "string list"
  warnings :: "string list"
  success_count :: int
  total_checks :: int
  out :: "line list"

text \<open>\<^verbatim>\<open>SetupVerifier.__init__\<close>; nothing has been printed yet.\<close>

definition SetupVerifier :: verifier where
  "SetupVerifier =
     \<lparr>errors = [], warnings = [], success_count = 0, total_checks = 0, out = []\<rparr>"

definition print :: "line \<Rightarrow> verifier \<Rightarrow> verifier" where
  "print l v = v\<lparr>out := out v @ [l]\<rparr>"

subsection \<open>Running one check\<close>

text \<open>
  A check function is called with no argument; what the call does is what it prints and
  how it ends: it returns a (truthy or falsy) result or raises. The checks of this script
  never touch the counters or lists of the verifier.
\<close>

type_synonym check = "line list \<times> (exn + bool)"

text \<open>
  \<^verbatim>\<open>check_item\<close>: the counter of attempted checks is incremented before the call; the
  handler is \<^verbatim>\<open>except Exception\<close>, so any other exception leaves the method, with the
  state as it is at that point.
\<close>

definition check_item :: "string \<Rightarrow> check \<Rightarrow> verifier \<Rightarrow> verifier \<times> (exn + bool)" where
  "check_item description check_function v =
     (let v1 = v\<lparr>total_checks := total_checks v + 1\<rparr>;
          v2 = v1\<lparr>out := out v1 @ fst check_function\<rparr>
      in case snd check_function of
           Inr result \<Rightarrow>
             if result then
               let v3 = print (Text (CHECK_MARK @ '' '' @ description)) v2
               in (v3\<lparr>success_count := success_count v3 + 1\<rparr>, Inr True)
             else
               let v3 = print (Text (CROSS_MARK @ '' '' @ description)) v2
               in (v3\<lparr>errors := errors v3 @ [description]\<rparr>, Inr False)
         | Inl e \<Rightarrow>
             if is_Exception e then
               let v3 = print (Text (CROSS_MARK @ '' '' @ description @ '' - Error: '' @ str e)) v2
               in (v3\<lparr>errors := errors v3 @ [description @ '' - '' @ str e]\<rparr>, Inr False)
             else (v2, Inl e))"

definition warn_item :: "string \<Rightarrow> verifier \<Rightarrow> verifier" where
  "warn_item description v =
     (let v1 = print (Text (WARNING_SIGN @ ''  '' @ description)) v
      in v1\<lparr>warnings := warnings v1 @ [description]\<rparr>)"

subsection \<open>What the script reads from its surroundings\<close>

record version_info =
  major :: int
  minor :: int
  micro :: int

text \<open>
  \<open>sys_real_prefix\<close> is \<^verbatim>\<open>hasattr(sys, 'real_prefix')\<close>; \<open>sys_base_prefix\<close> is \<open>None\<close> when
  \<^verbatim>\<open>sys\<close> has no attribute \<^verbatim>\<open>base_prefix\<close>. \<open>path_name p\<close> is \<^verbatim>\<open>Path(p).name\<close>.
  \<open>import_module n\<close> is what \<^verbatim>\<open>importlib.import_module(n)\<close> does: it raises, or returns a
  module, of which only \<^verbatim>\<open>str(__version__)\<close> is kept (\<open>None\<close> when the attribute is missing).
  The next five fields are what the bodies of the \<^verbatim>\<open>try\<close> blocks of the five probes do
  with NumPy, pandas, Matplotlib, requests and the file system: they raise, or complete
  with the value the probe goes on to test.
\<close>

record env =
  sys_version_info :: version_info
  os_environ :: "string \<Rightarrow> string option"
  sys_real_prefix :: bool
  sys_base_prefix :: "string option"
  sys_prefix :: string
  path_name :: "string \<Rightarrow> string"
  import_module :: "string \<Rightarrow> exn + string option"
  mean_sum_is_number :: "exn + bool"
  plot_sine :: "exn option"
  requests_get_status_code :: "exn + int"
  write_text_unlink :: "exn option"
  simulation_accuracy :: "exn + real"
  sys_executable :: string
  os_getcwd :: "exn + string"
  sys_platform :: string

subsection \<open>Decimal digits of an integer\<close>

function str_nat :: "nat \<Rightarrow> string" where
  "str_nat n =
     (if n < 10 then [char_of (48 + n)] else str_nat (n div 10) @ [char_of (48 + n mod 10)])"
  by pat_completeness auto
termination
  by (relation "measure (\<lambda>n. n)") auto

declare str_nat.simps [simp del]

text \<open>Python's \<^verbatim>\<open>str\<close> of an \<^verbatim>\<open>int\<close>.\<close>

definition str_int :: "int \<Rightarrow> string" where
  "str_int i = (if i < 0 then CHR ''-'' # str_nat (nat (- i)) else str_nat (nat i))"

subsection \<open>The two checks that are called directly\<close>

definition check_python_version :: "env \<Rightarrow> verifier \<Rightarrow> verifier \<times> bool" where
  "check_python_version env v =
     (let version = sys_version_info env
      in if major version \<ge> 3 \<and> minor version \<ge> 10 then
           (print (Text (CHECK_MARK @ '' Python version: '' @ str_int (major version) @ ''.''
                         @ str_int (minor version) @ ''.'' @ str_int (micro version))) v,
            True)
         else
           (print (Text (CROSS_MARK @ '' Python version: '' @ str_int (major version) @ ''.''
                         @ str_int (minor version) @ ''.'' @ str_int (micro version)
                         @ '' (requires 3.10+)'')) v,
            False))"

text \<open>The list \<^verbatim>\<open>venv_indicators\<close> of \<^verbatim>\<open>check_virtual_environment\<close>.\<close>

definition venv_indicators :: "env \<Rightarrow> bool list" where
  "venv_indicators env =
     [os_environ env ''VIRTUAL_ENV'' \<noteq> None,
      os_environ env ''CONDA_DEFAULT_ENV'' \<noteq> None,
      sys_real_prefix env,
      (case sys_base_prefix env of None \<Rightarrow> False | Some bp \<Rightarrow> bp \<noteq> sys_prefix env)]"

definition check_virtual_environment :: "env \<Rightarrow> verifier \<Rightarrow> verifier \<times> bool" where
  "check_virtual_environment env v =
     (if list_ex (\<lambda>b. b) (venv_indicators env) then
        let venv_name =
              (case os_environ env ''VIRTUAL_ENV'' of
                 Some n \<Rightarrow> n
               | None \<Rightarrow>
                   (case os_environ env ''CONDA_DEFAULT_ENV'' of
                      Some n \<Rightarrow> n
                    | None \<Rightarrow> ''Unknown''));
            venv_name = (if venv_name \<noteq> ''Unknown'' then path_name env venv_name
                         else ''Unknown'')
        in (print (Text (CHECK_MARK @ '' Virtual environment active: '' @ venv_name)) v, True)
      else
        (warn_item ''Not running in virtual environment (recommended but not required)'' v,
         True))"

subsection \<open>The checks that are run through \<open>check_item\<close>\<close>

text \<open>
  \<^verbatim>\<open>check_package_import\<close> catches \<^verbatim>\<open>ImportError\<close> only. Its result is the text
  \<^verbatim>\<open>"{package_name} v{version}"\<close> or \<^verbatim>\<open>None\<close>.
\<close>

definition check_package_import :: "env \<Rightarrow> string \<Rightarrow> exn + string option" where
  "check_package_import env package_name =
     (case import_module env package_name of
        Inr imported \<Rightarrow>
          let version = (case imported of Some ver \<Rightarrow> ver | None \<Rightarrow> ''Unknown'')
          in Inr (Some (package_name @ '' v'' @ version))
      | Inl e \<Rightarrow> if is_ImportError e then Inr None else Inl e)"

text \<open>
  The first loop of \<^verbatim>\<open>check_essential_packages\<close>, over the packages still to be tried,
  with the two lists it fills. \<^verbatim>\<open>if result\<close> is Python's truth value: \<^verbatim>\<open>None\<close> and the
  empty string are false. An exception that \<^verbatim>\<open>check_package_import\<close> lets out ends the
  loop.
\<close>

fun probe_packages ::
  "env \<Rightarrow> string list \<Rightarrow> string list \<Rightarrow> string list \<Rightarrow> exn + (string list \<times> string list)" where
  "probe_packages env [] missing_packages installed_packages =
     Inr (missing_packages, installed_packages)"
| "probe_packages env (package # rest) missing_packages installed_packages =
     (case check_package_import env package of
        Inl e \<Rightarrow> Inl e
      | Inr None \<Rightarrow> probe_packages env rest (missing_packages @ [package]) installed_packages
      | Inr (Some result) \<Rightarrow>
          if result \<noteq> [] then
            probe_packages env rest missing_packages (installed_packages @ [result])
          else
            probe_packages env rest (missing_packages @ [package]) installed_packages)"

text \<open>
  The body of \<^verbatim>\<open>check_essential_packages\<close> for a given list of required names: the loop,
  then one line for each installed and one for each missing package.
\<close>

definition check_packages :: "string list \<Rightarrow> env \<Rightarrow> check" where
  "check_packages packages env =
     (case probe_packages env packages [] [] of
        Inl e \<Rightarrow> ([], Inl e)
      | Inr (missing_packages, installed_packages) \<Rightarrow>
          (map (\<lambda>pkg. Text (CHECK_MARK @ '' '' @ pkg)) installed_packages
           @ map (\<lambda>pkg. Text (CROSS_MARK @ '' '' @ pkg @ '' - Not installed'')) missing_packages,
           Inr (length missing_packages = 0)))"

definition essential_packages :: "string list" where
  "essential_packages = [''numpy'', ''pandas'', ''matplotlib'', ''requests'', ''jupyter'']"

definition check_essential_packages :: "env \<Rightarrow> check" where
  "check_essential_packages env = check_packages essential_packages env"

definition check_data_manipulation :: "env \<Rightarrow> check" where
  "check_data_manipulation env =
     (case mean_sum_is_number env of
        Inr b \<Rightarrow> ([], Inr b)
      | Inl e \<Rightarrow> if is_Exception e then ([], Inr False) else ([], Inl e))"

definition check_visualization :: "env \<Rightarrow> check" where
  "check_visualization env =
     (case plot_sine env of
        None \<Rightarrow> ([], Inr True)
      | Some e \<Rightarrow> if is_Exception e then ([], Inr False) else ([], Inl e))"

definition check_network_connectivity :: "env \<Rightarrow> check" where
  "check_network_connectivity env =
     (case requests_get_status_code env of
        Inr status_code \<Rightarrow> ([], Inr (status_code = 200))
      | Inl e \<Rightarrow> if is_Exception e then ([], Inr False) else ([], Inl e))"

definition check_file_permissions :: "env \<Rightarrow> check" where
  "check_file_permissions env =
     (case write_text_unlink env of
        None \<Rightarrow> ([], Inr True)
      | Some e \<Rightarrow> if is_Exception e then ([], Inr False) else ([], Inl e))"

text \<open>
  The accuracy is printed and compared with 0.7. The script compares two floats; here
  the accuracy is the number the float stands for and the bound is 7/10.
\<close>

definition run_security_simulation :: "env \<Rightarrow> check" where
  "run_security_simulation env =
     (case simulation_accuracy env of
        Inr accuracy \<Rightarrow>
          ([Percent2 ''   Security simulation accuracy: '' accuracy []], Inr (accuracy > 7 / 10))
      | Inl e \<Rightarrow>
          if is_Exception e then ([Text (''   Simulation error: '' @ str e)], Inr False)
          else ([], Inl e))"

subsection \<open>Reporting\<close>

definition print_header :: "verifier \<Rightarrow> verifier" where
  "print_header v =
     (let v = print (Text (replicate 60 CHR ''='')) v;
          v = print (Text (LOCK @ '' AI SECURITY COURSE - SETUP VERIFICATION'')) v;
          v = print (Text (replicate 60 CHR ''='')) v
      in print (Text []) v)"

definition print_section :: "string \<Rightarrow> verifier \<Rightarrow> verifier" where
  "print_section title v =
     (let v = print (Text (NL @ CLIPBOARD @ '' '' @ title)) v
      in print (Text (replicate 40 CHR ''-'')) v)"

text \<open>The closing \<^verbatim>\<open>if\<close>/\<^verbatim>\<open>elif\<close>/\<^verbatim>\<open>else\<close> of \<^verbatim>\<open>print_summary\<close>: the message for a success rate.\<close>

definition EXCELLENT :: string where
  "EXCELLENT = ROCKET @ '' EXCELLENT! Your setup is ready for the AI Security course!''"

definition GOOD :: string where
  "GOOD = THUMBS_UP @ '' GOOD! Minor issues detected, but you should be able to proceed.''"

definition ATTENTION :: string where
  "ATTENTION =
     WARNING_SIGN @ ''  ATTENTION! Several issues detected. Please review and fix errors.''"

definition verdict_message :: "real \<Rightarrow> string" where
  "verdict_message success_rate =
     (if success_rate \<ge> 90 then EXCELLENT
      else if success_rate \<ge> 75 then GOOD
      else ATTENTION)"

text \<open>\<^verbatim>\<open>for x in xs: print(f"   (bullet) {x}")\<close>\<close>

fun print_bullets :: "string list \<Rightarrow> verifier \<Rightarrow> verifier" where
  "print_bullets [] v = v"
| "print_bullets (x # xs) v = print_bullets xs (print (Text (''   '' @ BULLET @ '' '' @ x)) v)"

text \<open>
  \<^verbatim>\<open>print_summary\<close>. The division is Python's true division of two \<^verbatim>\<open>int\<close>s: it raises
  \<^verbatim>\<open>ZeroDivisionError\<close> when the divisor is 0, and nothing in the method catches it.
  Otherwise the rate is taken to be the exact quotient times 100 (the script's float is
  the nearest representable number; for counters between 0 and \<open>total_checks\<close> the
  division cannot overflow).
\<close>

definition print_summary :: "verifier \<Rightarrow> verifier \<times> (exn + unit)" where
  "print_summary v =
     (let v = print (Text (NL @ replicate 60 CHR ''='')) v;
          v = print (Text (BAR_CHART @ '' VERIFICATION SUMMARY'')) v;
          v = print (Text (replicate 60 CHR ''='')) v
      in if total_checks v = 0 then (v, Inl (ZeroDivisionError ''division by zero''))
         else
           let success_rate = (real_of_int (success_count v) / real_of_int (total_checks v)) * 100;
               v = print (Float1f (CHECK_MARK @ '' Successful checks: '' @ str_int (success_count v)
                                   @ ''/'' @ str_int (total_checks v) @ '' ('')
                                  success_rate ''%)'') v;
               v = (if warnings v \<noteq> [] then
                      print_bullets (warnings v)
                        (print (Text (WARNING_SIGN @ ''  Warnings: ''
                                      @ str_int (int (length (warnings v))))) v)
                    else v);
               v = (if errors v \<noteq> [] then
                      print_bullets (errors v)
                        (print (Text (CROSS_MARK @ '' Errors: ''
                                      @ str_int (int (length (errors v))))) v)
                    else print (Text (PARTY @ '' No errors found!'')) v);
               v = print (Text (NL @ replicate 60 CHR ''='')) v;
               v = print (Text (verdict_message success_rate)) v;
               v = print (Text (replicate 60 CHR ''='')) v
           in (v, Inr ()))"

subsection \<open>The whole run\<close>

text \<open>
  Sequencing of two steps of a method: when the first step raises, the rest is skipped and
  the exception is passed on with the state reached.
\<close>

definition and_then ::
  "'s \<times> (exn + 'a) \<Rightarrow> ('a \<Rightarrow> 's \<Rightarrow> 's \<times> (exn + 'b)) \<Rightarrow> 's \<times> (exn + 'b)" where
  "and_then r k = (case r of (s, Inl e) \<Rightarrow> (s, Inl e) | (s, Inr a) \<Rightarrow> k a s)"

definition run_all_checks :: "env \<Rightarrow> verifier \<Rightarrow> verifier \<times> (exn + bool)" where
  "run_all_checks env v =
     (let v = print_header v;
          v = print_section ''Python Environment'' v;
          v = fst (check_python_version env v);
          v = fst (check_virtual_environment env v)
      in
      and_then (check_item ''File write permissions'' (check_file_permissions env) v) (\<lambda>_ v.
      let v = print_section ''Package Installation'' v in
      and_then (check_item ''Essential packages installed'' (check_essential_packages env) v) (\<lambda>_ v.
      and_then (check_item ''Data manipulation (NumPy/Pandas)'' (check_data_manipulation env) v) (\<lambda>_ v.
      and_then (check_item ''Visualization (Matplotlib)'' (check_visualization env) v) (\<lambda>_ v.
      let v = print_section ''Connectivity and Functionality'' v in
      and_then (check_item ''Network connectivity (PyPI)'' (check_network_connectivity env) v) (\<lambda>_ v.
      and_then (check_item ''AI Security simulation'' (run_security_simulation env) v) (\<lambda>_ v.
      and_then (print_summary v) (\<lambda>_ v.
      (v, Inr (length (errors v) = 0))))))))))"

text \<open>
  The two handlers of \<^verbatim>\<open>main\<close>, in their order: \<^verbatim>\<open>except KeyboardInterrupt\<close>, then
  \<^verbatim>\<open>except Exception\<close>. The result is what has been printed and the exit status.
\<close>

fun main_handlers :: "exn \<Rightarrow> line list \<Rightarrow> line list \<times> int" where
  "main_handlers KeyboardInterrupt printed =
     (printed @ [Text (NL @ NL @ WARNING_SIGN @ ''  Verification interrupted by user.'')], 1)"
| "main_handlers e printed =
     (printed @ [Text (NL @ NL @ CROSS_MARK @ '' Unexpected error during verification: '' @ str e)],
      1)"

text \<open>
  \<^verbatim>\<open>main\<close>. \<^verbatim>\<open>sys.exit(0 if success else 1)\<close> raises \<^verbatim>\<open>SystemExit\<close>, which neither handler
  catches, so the process ends with that status. \<^verbatim>\<open>os.getcwd()\<close> raises \<^verbatim>\<open>OSError\<close> when
  the working directory is gone; that happens before the third line is printed.
\<close>

definition main :: "env \<Rightarrow> line list \<times> int" where
  "main env =
     (case run_all_checks env SetupVerifier of
        (verifier, Inl e) \<Rightarrow> main_handlers e (out verifier)
      | (verifier, Inr success) \<Rightarrow>
          let printed = out verifier
                  @ [Text (NL @ LIGHT_BULB @ '' Additional Information:''),
                     Text (''   Python executable: '' @ sys_executable env)]
          in (case os_getcwd env of
                Inl e \<Rightarrow> main_handlers e printed
              | Inr cwd \<Rightarrow>
                  (printed @ [Text (''   Current directory: '' @ cwd),
                              Text (''   Platform: '' @ sys_platform env)],
                   if success then 0 else 1)))"

subsection \<open>Sequences of checks\<close>

text \<open>
  A list of described checks run one after the other through \<open>check_item\<close>, the way
  \<^verbatim>\<open>run_all_checks\<close> runs its six; the results of the calls are collected. An exception
  that leaves \<open>check_item\<close> ends the sequence.
\<close>

fun check_items :: "(string \<times> check) list \<Rightarrow> verifier \<Rightarrow> verifier \<times> (exn + bool list)" where
  "check_items [] v = (v, Inr [])"
| "check_items ((description, check_function) # rest) v =
     and_then (check_item description check_function v) (\<lambda>result v.
     and_then (check_items rest v) (\<lambda>results v.
     (v, Inr (result # results))))"

text \<open>The invariant of the counters.\<close>

definition counters_agree :: "verifier \<Rightarrow> bool" where
  "counters_agree v = (total_checks v = success_count v + int (length (errors v)))"

text \<open>
  A check is interrupted when its call ends with an exception that is not an instance of
  \<^verbatim>\<open>Exception\<close>; among the classes above that is \<^verbatim>\<open>KeyboardInterrupt\<close>.
\<close>

definition interrupted :: "check \<Rightarrow> bool" where
  "interrupted check_function =
     (case snd check_function of Inl e \<Rightarrow> \<not> is_Exception e | Inr _ \<Rightarrow> False)"

text \<open>All six checks of \<^verbatim>\<open>run_all_checks\<close> return a true result.\<close>

definition all_checks_pass :: "env \<Rightarrow> bool" where
  "all_checks_pass env =
     (snd (check_file_permissions env) = Inr True
      \<and> snd (check_essential_packages env) = Inr True
      \<and> snd (check_data_manipulation env) = Inr True
      \<and> snd (check_visualization env) = Inr True
      \<and> snd (check_network_connectivity env) = Inr True
      \<and> snd (run_security_simulation env) = Inr True)"

text \<open>One of the six checks of \<^verbatim>\<open>run_all_checks\<close> is interrupted.\<close>

definition some_check_interrupted :: "env \<Rightarrow> bool" where
  "some_check_interrupted env =
     (interrupted (check_file_permissions env)
      \<or> interrupted (check_essential_packages env)
      \<or> interrupted (check_data_manipulation env)
      \<or> interrupted (check_visualization env)
      \<or> interrupted (check_network_connectivity env)
      \<or> interrupted (run_security_simulation env))"

subsection \<open>Notions used to state the properties\<close>




text \<open>
  The requirement as the specification words it: the version is at least 3.10, that is,
  the major version is above 3, or it is 3 and the minor version is at least 10.
\<close>

definition meets_minimum_3_10 :: "version_info \<Rightarrow> bool" where
  "meets_minimum_3_10 version =
     (major version > 3 \<or> (major version = 3 \<and> minor version \<ge> 10))"

text \<open>
  A machine on which every probe succeeds, with Python 3.9.7 and outside any virtual
  environment.
\<close>

definition python_3_9_machine :: env where
  "python_3_9_machine =
     \<lparr>sys_version_info = \<lparr>major = 3, minor = 9, micro = 7\<rparr>,
      os_environ = (\<lambda>_. None),
      sys_real_prefix = False,
      sys_base_prefix = Some ''/usr'',
      sys_prefix = ''/usr'',
      path_name = (\<lambda>p. p),
      import_module = (\<lambda>_. Inr (Some ''1.0'')),
      mean_sum_is_number = Inr True,
      plot_sine = None,
      requests_get_status_code = Inr 200,
      write_text_unlink = None,
      simulation_accuracy = Inr (93 / 100),
      sys_executable = ''/usr/bin/python3'',
      os_getcwd = Inr ''/home/student'',
      sys_platform = ''linux''\<rparr>"


section \<open>Properties\<close>

subsection \<open>One call and a sequence of calls of \<open>check_item\<close>\<close>

lemma check_item_total:
  "total_checks (fst (check_item d c v)) = total_checks v + 1"
  by (simp add: check_item_def print_def Let_def split: sum.splits)

lemma check_item_returns:
  "\<not> interrupted c \<Longrightarrow> \<exists>b. snd (check_item d c v) = Inr b"
  by (auto simp add: check_item_def interrupted_def print_def Let_def split: sum.splits)

lemma check_item_agree:
  "\<not> interrupted c \<Longrightarrow> counters_agree v \<Longrightarrow> counters_agree (fst (check_item d c v))"
  by (auto simp add: check_item_def interrupted_def counters_agree_def print_def Let_def split: sum.splits)

lemma check_item_sum:
  "\<not> interrupted c \<Longrightarrow>
   success_count (fst (check_item d c v)) + int (length (errors (fst (check_item d c v))))
   = success_count v + int (length (errors v)) + 1"
  by (auto simp add: check_item_def interrupted_def print_def Let_def split: sum.splits)

lemma check_items_counts_from:
  "list_all (\<lambda>x. \<not> interrupted (snd x)) cs \<Longrightarrow>
   \<exists>v' rs. check_items cs v = (v', Inr rs) \<and> length rs = length cs
     \<and> total_checks v' = total_checks v + int (length cs)
     \<and> success_count v' + int (length (errors v'))
        = success_count v + int (length (errors v)) + int (length cs)"
proof (induction cs arbitrary: v)
  case Nil
  then show ?case by simp
next
  case (Cons x cs)
  obtain d c where x: "x = (d, c)" by (cases x)
  from Cons.prems x have c: "\<not> interrupted c" and rest: "list_all (\<lambda>x. \<not> interrupted (snd x)) cs"
    by simp_all
  obtain v1 b where step: "check_item d c v = (v1, Inr b)"
    using check_item_returns [OF c, of d v] by (cases "check_item d c v") auto
  have t1: "total_checks v1 = total_checks v + 1"
    using check_item_total [of d c v] step by simp
  have s1: "success_count v1 + int (length (errors v1)) = success_count v + int (length (errors v)) + 1"
    using check_item_sum [OF c, of d v] step by simp
  from Cons.IH [OF rest, of v1] obtain v' rs where
    run: "check_items cs v1 = (v', Inr rs)" and len: "length rs = length cs"
    and t: "total_checks v' = total_checks v1 + int (length cs)"
    and s: "success_count v' + int (length (errors v')) = success_count v1 + int (length (errors v1)) + int (length cs)"
    by blast
  show ?case
    using x step run len t s t1 s1 by (simp add: and_then_def)
qed

lemma check_items_append:
  "check_items (cs1 @ cs2) v =
     and_then (check_items cs1 v) (\<lambda>rs1 v1.
     and_then (check_items cs2 v1) (\<lambda>rs2 v2. (v2, Inr (rs1 @ rs2))))"
proof (induction cs1 arbitrary: v)
  case Nil
  show ?case by (simp add: and_then_def split: prod.splits sum.splits)
next
  case (Cons x cs1)
  obtain d c where x: "x = (d, c)" by (cases x)
  show ?case
    by (simp add: x Cons.IH and_then_def split: prod.splits sum.splits)
qed

text \<open>
  C1 (amended). The counters agree initially; \<open>warn_item\<close> keeps them in agreement, and so
  does every call of \<open>check_item\<close> whose check returns a true or false result or raises an
  instance of \<^verbatim>\<open>Exception\<close>. For every sequence of N such checks run through \<open>check_item\<close>
  from the initial state, the sequence runs to its end, \<open>total_checks\<close> is N and
  \<open>success_count\<close> plus the number of errors is N.
\<close>

theorem counters_agree_preserved:
  "counters_agree SetupVerifier
   \<and> (counters_agree v \<longrightarrow> counters_agree (warn_item description v))
   \<and> (counters_agree v \<and> \<not> interrupted check_function
        \<longrightarrow> counters_agree (fst (check_item description check_function v)))
   \<and> (list_all (\<lambda>x. \<not> interrupted (snd x)) cs \<longrightarrow>
        (\<exists>v' rs. check_items cs SetupVerifier = (v', Inr rs)
           \<and> length rs = length cs
           \<and> total_checks v' = int (length cs)
           \<and> success_count v' + int (length (errors v')) = int (length cs)))"
proof -
  have a: "counters_agree SetupVerifier"
    by (simp add: counters_agree_def SetupVerifier_def)
  have b: "counters_agree v \<longrightarrow> counters_agree (warn_item description v)"
    by (simp add: counters_agree_def warn_item_def print_def)
  have c: "counters_agree v \<and> \<not> interrupted check_function
        \<longrightarrow> counters_agree (fst (check_item description check_function v))"
    using check_item_agree by blast
  have d: "list_all (\<lambda>x. \<not> interrupted (snd x)) cs \<longrightarrow>
        (\<exists>v' rs. check_items cs SetupVerifier = (v', Inr rs)
           \<and> length rs = length cs
           \<and> total_checks v' = int (length cs)
           \<and> success_count v' + int (length (errors v')) = int (length cs))"
    using check_items_counts_from [of cs SetupVerifier] by (simp add: SetupVerifier_def)
  from a b c d show ?thesis by blast
qed

text \<open>Three checks: one passes, one raises \<^verbatim>\<open>Exception("boom")\<close>, one fails.\<close>

theorem counters_agree_preserved_witness:
  "total_checks (fst (check_items
      [(''a'', ([], Inr True)), (''b'', ([], Inl (Exception ''boom''))), (''c'', ([], Inr False))]
      SetupVerifier)) = 3
   \<and> success_count (fst (check_items
      [(''a'', ([], Inr True)), (''b'', ([], Inl (Exception ''boom''))), (''c'', ([], Inr False))]
      SetupVerifier)) = 1
   \<and> errors (fst (check_items
      [(''a'', ([], Inr True)), (''b'', ([], Inl (Exception ''boom''))), (''c'', ([], Inr False))]
      SetupVerifier)) = [''b - boom'', ''c'']
   \<and> counters_agree (warn_item ''w'' SetupVerifier)
   \<and> counters_agree (fst (check_item ''w'' ([], Inr True) SetupVerifier))"
  using counters_agree_preserved [of SetupVerifier "''w''" "([], Inr True)"
      "[(''a'', ([], Inr True)), (''b'', ([], Inl (Exception ''boom''))), (''c'', ([], Inr False))]"]
  by (simp add: interrupted_def check_item_def and_then_def print_def SetupVerifier_def
      counters_agree_def warn_item_def)

text \<open>
  Stated for every outcome of a check, C1 fails: a check that is interrupted has been
  counted in \<open>total_checks\<close> when \<^verbatim>\<open>KeyboardInterrupt\<close> leaves \<open>check_item\<close>, it is neither a
  success nor an error, and the checks after it are not run.
\<close>

theorem interrupted_check_breaks_counters:
  "counters_agree SetupVerifier
   \<and> \<not> counters_agree (fst (check_item ''a'' ([], Inl KeyboardInterrupt) SetupVerifier))
   \<and> total_checks (fst (check_items
        [(''a'', ([], Inl KeyboardInterrupt)), (''b'', ([], Inr True))] SetupVerifier)) = 1
   \<and> success_count (fst (check_items
        [(''a'', ([], Inl KeyboardInterrupt)), (''b'', ([], Inr True))] SetupVerifier)) = 0
   \<and> errors (fst (check_items
        [(''a'', ([], Inl KeyboardInterrupt)), (''b'', ([], Inr True))] SetupVerifier)) = []"
  by (simp add: counters_agree_def check_item_def and_then_def SetupVerifier_def)

lemma check_item_Exception:
  "is_Exception e \<Longrightarrow>
     check_item description (printed, Inl e) v =
       (v\<lparr>total_checks := total_checks v + 1,
          out := out v @ printed
                 @ [Text (CROSS_MARK @ '' '' @ description @ '' - Error: '' @ str e)],
          errors := errors v @ [description @ '' - '' @ str e]\<rparr>,
        Inr False)"
  by (simp add: check_item_def print_def)

lemma check_item_escapes:
  "snd (check_item d c v) = Inl e \<longleftrightarrow> snd c = Inl e \<and> \<not> is_Exception e"
  by (auto simp add: check_item_def print_def Let_def split: sum.splits)

lemma check_item_errors_grow:
  "set (errors v) \<subseteq> set (errors (fst (check_item d c v)))"
  by (auto simp add: check_item_def print_def Let_def split: sum.splits)

lemma check_items_errors_grow:
  "set (errors v) \<subseteq> set (errors (fst (check_items cs v)))"
proof (induction cs arbitrary: v)
  case Nil
  show ?case by simp
next
  case (Cons x cs)
  obtain d c where x: "x = (d, c)" by (cases x)
  obtain v1 r1 where s1: "check_item d c v = (v1, r1)" by (cases "check_item d c v")
  have g1: "set (errors v) \<subseteq> set (errors v1)"
    using check_item_errors_grow [of v d c] s1 by simp
  show ?case
  proof (cases r1)
    case (Inl e)
    then show ?thesis using x s1 g1 by (simp add: and_then_def)
  next
    case (Inr b)
    obtain v2 r2 where s2: "check_items cs v1 = (v2, r2)" by (cases "check_items cs v1")
    have g2: "set (errors v1) \<subseteq> set (errors v2)"
      using Cons.IH [of v1] s2 by simp
    show ?thesis
      using x s1 s2 Inr g1 g2 by (cases r2) (auto simp add: and_then_def)
  qed
qed

text \<open>
  C2 (amended). For every description and every check that raises an instance of
  \<^verbatim>\<open>Exception\<close> with message \<open>str e\<close>, \<open>check_item\<close> does not raise: it counts the check, prints
  the failure line with the message, appends \<^verbatim>\<open>"{description} - {str(e)}"\<close> to the errors and
  returns \<open>False\<close>. A call of \<open>check_item\<close> returns whenever its check returns or raises an
  instance of \<^verbatim>\<open>Exception\<close>. In a sequence of such checks, one that raises in the middle is
  recorded and all the checks after it are still run.
\<close>

theorem check_item_records_Exception:
  "(is_Exception e \<longrightarrow>
      check_item description (printed, Inl e) v =
        (v\<lparr>total_checks := total_checks v + 1,
           out := out v @ printed
                  @ [Text (CROSS_MARK @ '' '' @ description @ '' - Error: '' @ str e)],
           errors := errors v @ [description @ '' - '' @ str e]\<rparr>,
         Inr False))
   \<and> (\<not> interrupted check_function \<longrightarrow>
        (\<exists>b. snd (check_item description check_function v) = Inr b))
   \<and> (is_Exception e \<and> list_all (\<lambda>x. \<not> interrupted (snd x)) earlier
        \<and> list_all (\<lambda>x. \<not> interrupted (snd x)) later \<longrightarrow>
        (\<exists>v' rs. check_items (earlier @ (description, (printed, Inl e)) # later) v = (v', Inr rs)
           \<and> length rs = length earlier + 1 + length later
           \<and> rs ! length earlier = False
           \<and> description @ '' - '' @ str e \<in> set (errors v')
           \<and> total_checks v' = total_checks v + int (length earlier + 1 + length later)))"
proof -
  have one: "is_Exception e \<longrightarrow>
      check_item description (printed, Inl e) v =
        (v\<lparr>total_checks := total_checks v + 1,
           out := out v @ printed
                  @ [Text (CROSS_MARK @ '' '' @ description @ '' - Error: '' @ str e)],
           errors := errors v @ [description @ '' - '' @ str e]\<rparr>,
         Inr False)"
    by (simp add: check_item_Exception)
  have two: "\<not> interrupted check_function \<longrightarrow>
        (\<exists>b. snd (check_item description check_function v) = Inr b)"
    by (simp add: check_item_returns)
  have three: "\<exists>v' rs. check_items (earlier @ (description, (printed, Inl e)) # later) v = (v', Inr rs)
           \<and> length rs = length earlier + 1 + length later
           \<and> rs ! length earlier = False
           \<and> description @ '' - '' @ str e \<in> set (errors v')
           \<and> total_checks v' = total_checks v + int (length earlier + 1 + length later)"
    if e: "is_Exception e" and ea: "list_all (\<lambda>x. \<not> interrupted (snd x)) earlier"
      and la: "list_all (\<lambda>x. \<not> interrupted (snd x)) later"
  proof -
    obtain v1 rs1 where r1: "check_items earlier v = (v1, Inr rs1)"
      and l1: "length rs1 = length earlier"
      and t1: "total_checks v1 = total_checks v + int (length earlier)"
      using check_items_counts_from [OF ea, of v] by blast
    define v2 where "v2 = fst (check_item description (printed, Inl e) v1)"
    have r2: "check_item description (printed, Inl e) v1 = (v2, Inr False)"
      unfolding v2_def using e by (simp add: check_item_Exception)
    have t2: "total_checks v2 = total_checks v1 + 1"
      unfolding v2_def by (rule check_item_total)
    have e2: "description @ '' - '' @ str e \<in> set (errors v2)"
      unfolding v2_def using e by (simp add: check_item_Exception)
    obtain v3 rs3 where r3: "check_items later v2 = (v3, Inr rs3)"
      and l3: "length rs3 = length later"
      and t3: "total_checks v3 = total_checks v2 + int (length later)"
      using check_items_counts_from [OF la, of v2] by blast
    have e3: "set (errors v2) \<subseteq> set (errors v3)"
      using check_items_errors_grow [of v2 later] r3 by simp
    have run: "check_items (earlier @ (description, (printed, Inl e)) # later) v
                 = (v3, Inr (rs1 @ False # rs3))"
      by (simp add: check_items_append r1 r2 r3 and_then_def)
    show ?thesis
      using run l1 l3 t1 t2 t3 e2 e3 by (auto simp add: nth_append)
  qed
  from one two three show ?thesis by blast
qed

text \<open>A passing check, a check that raises \<^verbatim>\<open>Exception("boom")\<close>, and a passing check.\<close>

theorem check_item_records_Exception_witness:
  "check_item ''b'' ([], Inl (Exception ''boom'')) SetupVerifier =
     (SetupVerifier\<lparr>total_checks := 1,
        out := [Text (CROSS_MARK @ '' b - Error: boom'')],
        errors := [''b - boom'']\<rparr>,
      Inr False)
   \<and> snd (check_item ''b'' ([], Inr False) SetupVerifier) = Inr False
   \<and> snd (check_items
        [(''a'', ([], Inr True)), (''b'', ([], Inl (Exception ''boom''))), (''c'', ([], Inr True))]
        SetupVerifier) = Inr [True, False, True]
   \<and> total_checks (fst (check_items
        [(''a'', ([], Inr True)), (''b'', ([], Inl (Exception ''boom''))), (''c'', ([], Inr True))]
        SetupVerifier)) = 3"
  using check_item_records_Exception [where e = "Exception ''boom''" and description = "''b''"
      and printed = "[]" and v = SetupVerifier and check_function = "([], Inr False)"
      and earlier = "[(''a'', ([], Inr True))]" and later = "[(''c'', ([], Inr True))]"]
  by (simp add: interrupted_def check_item_def and_then_def print_def SetupVerifier_def)

text \<open>
  Stated for every check function, C2 fails: the handler of \<open>check_item\<close> is
  \<^verbatim>\<open>except Exception\<close>, and \<^verbatim>\<open>KeyboardInterrupt\<close> raised by a check leaves \<open>check_item\<close>;
  nothing is appended to the errors and the next check is not run.
\<close>

theorem check_item_passes_KeyboardInterrupt:
  "check_item ''a'' ([], Inl KeyboardInterrupt) SetupVerifier =
     (SetupVerifier\<lparr>total_checks := 1\<rparr>, Inl KeyboardInterrupt)
   \<and> check_items [(''a'', ([], Inl KeyboardInterrupt)), (''b'', ([], Inr True))] SetupVerifier =
     (SetupVerifier\<lparr>total_checks := 1\<rparr>, Inl KeyboardInterrupt)"
  by (simp add: check_item_def and_then_def SetupVerifier_def)

subsection \<open>What the reporting methods leave unchanged\<close>

lemma print_fields [simp]:
  "errors (print l v) = errors v"
  "warnings (print l v) = warnings v"
  "success_count (print l v) = success_count v"
  "total_checks (print l v) = total_checks v"
  "out (print l v) = out v @ [l]"
  by (simp_all add: print_def)

lemma print_bullets_fields [simp]:
  "errors (print_bullets xs v) = errors v"
  "warnings (print_bullets xs v) = warnings v"
  "success_count (print_bullets xs v) = success_count v"
  "total_checks (print_bullets xs v) = total_checks v"
  "out (print_bullets xs v) = out v @ map (\<lambda>x. Text (''   '' @ BULLET @ '' '' @ x)) xs"
  by (induction xs arbitrary: v; simp)+

lemma print_header_fields [simp]:
  "errors (print_header v) = errors v"
  "warnings (print_header v) = warnings v"
  "success_count (print_header v) = success_count v"
  "total_checks (print_header v) = total_checks v"
  by (simp_all add: print_header_def)

lemma print_section_fields [simp]:
  "errors (print_section t v) = errors v"
  "warnings (print_section t v) = warnings v"
  "success_count (print_section t v) = success_count v"
  "total_checks (print_section t v) = total_checks v"
  by (simp_all add: print_section_def)

lemma warn_item_fields [simp]:
  "errors (warn_item d v) = errors v"
  "warnings (warn_item d v) = warnings v @ [d]"
  "success_count (warn_item d v) = success_count v"
  "total_checks (warn_item d v) = total_checks v"
  by (simp_all add: warn_item_def)

lemma check_python_version_fields [simp]:
  "errors (fst (check_python_version env v)) = errors v"
  "warnings (fst (check_python_version env v)) = warnings v"
  "success_count (fst (check_python_version env v)) = success_count v"
  "total_checks (fst (check_python_version env v)) = total_checks v"
  by (simp_all add: check_python_version_def Let_def)

lemma check_virtual_environment_fields [simp]:
  "errors (fst (check_virtual_environment env v)) = errors v"
  "success_count (fst (check_virtual_environment env v)) = success_count v"
  "total_checks (fst (check_virtual_environment env v)) = total_checks v"
  by (simp_all add: check_virtual_environment_def Let_def)

lemma check_virtual_environment_warnings:
  "warnings (fst (check_virtual_environment env v)) =
     warnings v
     @ (if list_ex (\<lambda>b. b) (venv_indicators env) then []
        else [''Not running in virtual environment (recommended but not required)''])"
  by (simp add: check_virtual_environment_def Let_def)

lemma print_summary_fields [simp]:
  "errors (fst (print_summary v)) = errors v"
  "warnings (fst (print_summary v)) = warnings v"
  "success_count (fst (print_summary v)) = success_count v"
  "total_checks (fst (print_summary v)) = total_checks v"
  by (simp_all add: print_summary_def Let_def)

lemma print_summary_raises:
  "snd (print_summary v) = (if total_checks v = 0 then Inl (ZeroDivisionError ''division by zero'') else Inr ())"
  by (simp add: print_summary_def Let_def)

lemma print_summary_out:
  "total_checks v \<noteq> 0 \<Longrightarrow>
   out (fst (print_summary v)) =
     out v
     @ [Text (NL @ replicate 60 CHR ''=''),
        Text (BAR_CHART @ '' VERIFICATION SUMMARY''),
        Text (replicate 60 CHR ''=''),
        Float1f (CHECK_MARK @ '' Successful checks: '' @ str_int (success_count v)
                 @ ''/'' @ str_int (total_checks v) @ '' ('')
          (real_of_int (success_count v) / real_of_int (total_checks v) * 100) ''%)'']
     @ (if warnings v \<noteq> [] then
          Text (WARNING_SIGN @ ''  Warnings: '' @ str_int (int (length (warnings v))))
          # map (\<lambda>x. Text (''   '' @ BULLET @ '' '' @ x)) (warnings v)
        else [])
     @ (if errors v \<noteq> [] then
          Text (CROSS_MARK @ '' Errors: '' @ str_int (int (length (errors v))))
          # map (\<lambda>x. Text (''   '' @ BULLET @ '' '' @ x)) (errors v)
        else [Text (PARTY @ '' No errors found!'')])
     @ [Text (NL @ replicate 60 CHR ''=''),
        Text (verdict_message (real_of_int (success_count v) / real_of_int (total_checks v) * 100)),
        Text (replicate 60 CHR ''='')]"
  by (simp add: print_summary_def Let_def)

subsection \<open>The run as a whole\<close>

lemma and_then_Inr_iff:
  "and_then r k = (v', Inr b) \<longleftrightarrow> (\<exists>s a. r = (s, Inr a) \<and> k a s = (v', Inr b))"
  by (cases r; cases "snd r") (auto simp add: and_then_def)

lemma and_then_Inl_iff:
  "and_then r k = (v', Inl e) \<longleftrightarrow>
     r = (v', Inl e) \<or> (\<exists>s a. r = (s, Inr a) \<and> k a s = (v', Inl e))"
  by (cases r; cases "snd r") (auto simp add: and_then_def)

lemma not_is_Exception: "\<not> is_Exception e \<longleftrightarrow> e = KeyboardInterrupt"
  by (cases e) simp_all

lemma check_item_Inr:
  "check_item d c v = (v', Inr b) \<Longrightarrow>
     total_checks v' = total_checks v + 1 \<and> warnings v' = warnings v
     \<and> (errors v' = [] \<longleftrightarrow> errors v = [] \<and> snd c = Inr True)
     \<and> b = (snd c = Inr True) \<and> \<not> interrupted c"
  by (auto simp add: check_item_def print_def Let_def interrupted_def split: sum.splits if_splits)

lemma check_item_Inl:
  "check_item d c v = (v', Inl e) \<Longrightarrow> e = KeyboardInterrupt \<and> interrupted c"
  by (auto simp add: check_item_def print_def Let_def not_is_Exception interrupted_def
      split: sum.splits if_splits)

lemma print_summary_Inr:
  "print_summary v = (v', Inr u) \<Longrightarrow>
     errors v' = errors v \<and> total_checks v' = total_checks v \<and> warnings v' = warnings v"
  using print_summary_fields [of v] by simp

lemma print_summary_Inl:
  "print_summary v = (v', Inl e) \<Longrightarrow> total_checks v = 0"
  using print_summary_raises [of v] by (simp split: if_splits)

lemma run_all_checks_Inr:
  assumes "run_all_checks env v0 = (v, Inr b)"
  shows "total_checks v = total_checks v0 + 6 \<and> b = (errors v = [])
         \<and> (errors v = [] \<longleftrightarrow> errors v0 = [] \<and> all_checks_pass env)
         \<and> \<not> some_check_interrupted env
         \<and> warnings v = warnings (fst (check_virtual_environment env v0))"
  using assms
  unfolding run_all_checks_def Let_def and_then_Inr_iff
  apply (elim exE conjE)
  apply (drule check_item_Inr)+
  apply (drule print_summary_Inr)
  apply (simp add: all_checks_pass_def some_check_interrupted_def
      check_virtual_environment_warnings)
  done


lemma run_all_checks_Inl:
  assumes "run_all_checks env v0 = (v, Inl e)" and "total_checks v0 \<noteq> - 6"
  shows "e = KeyboardInterrupt \<and> some_check_interrupted env"
  using assms
  unfolding run_all_checks_def Let_def and_then_Inl_iff and_then_Inr_iff some_check_interrupted_def
  apply (elim exE conjE disjE)
        apply (blast dest: check_item_Inl)+
  apply (drule check_item_Inr)+
   apply (drule print_summary_Inl)
   apply simp
  apply simp
  done


lemma run_all_checks_returns_iff:
  assumes "total_checks v0 \<noteq> - 6"
  shows "(\<exists>v b. run_all_checks env v0 = (v, Inr b)) \<longleftrightarrow> \<not> some_check_interrupted env"
proof (cases "run_all_checks env v0")
  case (Pair v r)
  show ?thesis
  proof (cases r)
    case (Inl e)
    then show ?thesis
      using Pair run_all_checks_Inl [of env v0 v e] assms by simp
  next
    case (Inr b)
    then show ?thesis
      using Pair run_all_checks_Inr [of env v0 v b] by simp
  qed
qed

lemma main_handlers_status: "snd (main_handlers e printed) = 1"
  by (cases e) simp_all

lemma all_checks_pass_not_interrupted:
  "all_checks_pass env \<Longrightarrow> \<not> some_check_interrupted env"
  by (simp add: all_checks_pass_def some_check_interrupted_def interrupted_def)

lemma main_status:
  "snd (main env) =
     (if all_checks_pass env \<and> (\<exists>cwd. os_getcwd env = Inr cwd) then 0 else 1)"
proof (cases "run_all_checks env SetupVerifier")
  case (Pair v r)
  have t0: "total_checks SetupVerifier \<noteq> - 6" and e0: "errors SetupVerifier = []"
    by (simp_all add: SetupVerifier_def)
  show ?thesis
  proof (cases r)
    case (Inl e)
    have "some_check_interrupted env"
      using Pair Inl run_all_checks_Inl [of env SetupVerifier v e] t0 by simp
    then have "\<not> all_checks_pass env"
      using all_checks_pass_not_interrupted by blast
    then show ?thesis
      using Pair Inl by (simp add: main_def main_handlers_status)
  next
    case (Inr b)
    have b: "b = all_checks_pass env"
      using Pair Inr run_all_checks_Inr [of env SetupVerifier v b] e0 by simp
    show ?thesis
      using Pair Inr b
      by (cases "os_getcwd env") (simp_all add: main_def main_handlers_status Let_def)
  qed
qed

subsection \<open>The summary\<close>

text \<open>
  C3 (amended). \<open>print_summary\<close> raises \<^verbatim>\<open>ZeroDivisionError\<close> exactly when \<open>total_checks\<close> is 0:
  the division has no guard. For every state with at least one check counted and
  \<open>success_count\<close> between 0 and \<open>total_checks\<close>, the summary is printed without an error and
  the success rate \<open>success_count / total_checks * 100\<close> lies between 0 and 100. Within
  \<open>run_all_checks\<close> the summary is only reached after six checks have been counted, so a
  run never ends with a division error.
\<close>

theorem print_summary_division:
  "(snd (print_summary v) = Inl (ZeroDivisionError ''division by zero'')) = (total_checks v = 0)
   \<and> (0 < total_checks v \<and> 0 \<le> success_count v \<and> success_count v \<le> total_checks v \<longrightarrow>
        snd (print_summary v) = Inr ()
        \<and> 0 \<le> real_of_int (success_count v) / real_of_int (total_checks v) * 100
        \<and> real_of_int (success_count v) / real_of_int (total_checks v) * 100 \<le> 100
        \<and> Float1f (CHECK_MARK @ '' Successful checks: '' @ str_int (success_count v)
                    @ ''/'' @ str_int (total_checks v) @ '' ('')
             (real_of_int (success_count v) / real_of_int (total_checks v) * 100) ''%)''
           \<in> set (out (fst (print_summary v))))
   \<and> snd (run_all_checks env SetupVerifier) \<noteq> Inl (ZeroDivisionError m)"
proof -
  have zero: "(snd (print_summary v) = Inl (ZeroDivisionError ''division by zero''))
              = (total_checks v = 0)"
    by (simp add: print_summary_raises)
  have rate: "0 \<le> real_of_int (success_count v) / real_of_int (total_checks v) * 100
        \<and> real_of_int (success_count v) / real_of_int (total_checks v) * 100 \<le> 100"
    if "0 < total_checks v" "0 \<le> success_count v" "success_count v \<le> total_checks v"
    using that by (simp add: divide_le_eq)
  have line: "snd (print_summary v) = Inr ()
        \<and> Float1f (CHECK_MARK @ '' Successful checks: '' @ str_int (success_count v)
                    @ ''/'' @ str_int (total_checks v) @ '' ('')
             (real_of_int (success_count v) / real_of_int (total_checks v) * 100) ''%)''
           \<in> set (out (fst (print_summary v)))"
    if "0 < total_checks v"
    using that by (simp add: print_summary_raises print_summary_out)
  have run: "snd (run_all_checks env SetupVerifier) \<noteq> Inl (ZeroDivisionError m)"
  proof
    assume a: "snd (run_all_checks env SetupVerifier) = Inl (ZeroDivisionError m)"
    obtain v' where "run_all_checks env SetupVerifier = (v', Inl (ZeroDivisionError m))"
      using a by (cases "run_all_checks env SetupVerifier") simp
    then have "ZeroDivisionError m = KeyboardInterrupt"
      using run_all_checks_Inl [of env SetupVerifier v' "ZeroDivisionError m"]
      by (simp add: SetupVerifier_def)
    then show False by simp
  qed
  from zero rate line run show ?thesis by blast
qed

text \<open>Five successes out of six checks; and the initial state, where the division fails.\<close>

theorem print_summary_division_witness:
  "snd (print_summary \<lparr>errors = [''x''], warnings = [], success_count = 5,
                        total_checks = 6, out = []\<rparr>) = Inr ()
   \<and> snd (print_summary SetupVerifier) \<noteq> Inr ()"
  using print_summary_division
    [of "\<lparr>errors = [''x''], warnings = [], success_count = 5, total_checks = 6, out = []\<rparr>"]
    print_summary_division [of SetupVerifier]
  by (simp add: SetupVerifier_def)

text \<open>
  The success rate is not defined as 0 when \<open>total_checks\<close> is 0: on the initial state
  \<open>print_summary\<close> prints its banner and raises \<^verbatim>\<open>ZeroDivisionError\<close>.
\<close>

theorem print_summary_no_checks_raises:
  "print_summary SetupVerifier =
     (SetupVerifier\<lparr>out := [Text (NL @ replicate 60 CHR ''=''),
                             Text (BAR_CHART @ '' VERIFICATION SUMMARY''),
                             Text (replicate 60 CHR ''='')]\<rparr>,
      Inl (ZeroDivisionError ''division by zero''))"
  by (simp add: print_summary_def print_def SetupVerifier_def)

lemma verdict_messages_distinct:
  "EXCELLENT \<noteq> GOOD" "GOOD \<noteq> ATTENTION" "EXCELLENT \<noteq> ATTENTION"
  by (simp_all add: EXCELLENT_def GOOD_def ATTENTION_def ROCKET_def THUMBS_UP_def WARNING_SIGN_def)

text \<open>
  C6. The verdict is a function of the success rate alone: a rate of at least 90 gives the
  top message, a rate of at least 75 and below 90 the middle one, a rate below 75 the
  bottom one; the three messages are different. \<open>print_summary\<close> prints the verdict of the
  rate it computed as its last line but one.
\<close>

theorem verdict_message_tiers:
  "(90 \<le> r \<longrightarrow> verdict_message r = EXCELLENT)
   \<and> (75 \<le> r \<and> r < 90 \<longrightarrow> verdict_message r = GOOD)
   \<and> (r < 75 \<longrightarrow> verdict_message r = ATTENTION)
   \<and> EXCELLENT \<noteq> GOOD \<and> GOOD \<noteq> ATTENTION \<and> EXCELLENT \<noteq> ATTENTION
   \<and> (total_checks v \<noteq> 0 \<longrightarrow>
        (\<exists>before. out (fst (print_summary v)) =
           before @ [Text (verdict_message
                       (real_of_int (success_count v) / real_of_int (total_checks v) * 100)),
                     Text (replicate 60 CHR ''='')]))"
proof -
  have tiers: "(90 \<le> r \<longrightarrow> verdict_message r = EXCELLENT)
   \<and> (75 \<le> r \<and> r < 90 \<longrightarrow> verdict_message r = GOOD)
   \<and> (r < 75 \<longrightarrow> verdict_message r = ATTENTION)"
    by (simp add: verdict_message_def)
  have printed: "\<exists>before. out (fst (print_summary v)) =
           before @ [Text (verdict_message
                       (real_of_int (success_count v) / real_of_int (total_checks v) * 100)),
                     Text (replicate 60 CHR ''='')]"
    if "total_checks v \<noteq> 0"
    using that by (simp add: print_summary_out)
  from tiers printed verdict_messages_distinct show ?thesis by blast
qed

text \<open>The rates 95, 80 and 50, and the two thresholds.\<close>

theorem verdict_message_tiers_witness:
  "verdict_message 95 = EXCELLENT \<and> verdict_message 80 = GOOD \<and> verdict_message 50 = ATTENTION
   \<and> verdict_message 90 = EXCELLENT \<and> verdict_message 75 = GOOD
   \<and> last (out (fst (print_summary \<lparr>errors = [''x''], warnings = [], success_count = 5,
                        total_checks = 6, out = []\<rparr>))) = Text (replicate 60 CHR ''='')"
  using verdict_message_tiers [of 95] verdict_message_tiers [of 80] verdict_message_tiers [of 50]
    verdict_message_tiers [of 90] verdict_message_tiers [of 75
      "\<lparr>errors = [''x''], warnings = [], success_count = 5, total_checks = 6, out = []\<rparr>"]
  by auto

subsection \<open>The two checks called directly\<close>

lemma str_int_0: "str_int 0 = ''0''"
  by code_simp

lemma str_int_4: "str_int 4 = ''4''"
  by code_simp

lemma check_python_version_result:
  "snd (check_python_version env v)
     = (3 \<le> major (sys_version_info env) \<and> 10 \<le> minor (sys_version_info env))"
  by (simp add: check_python_version_def Let_def)

text \<open>
  C4. The claim is that the interpreter-version check returns true exactly for the
  versions from 3.10 on, in particular for every major version from 4 on. The source tests
  \<^verbatim>\<open>version.major >= 3 and version.minor >= 10\<close>: for Python 4.0.0 it prints the failure
  line and returns \<open>False\<close>, although 4.0 meets the minimum. The check agrees with the
  requirement exactly for the versions with a major version below 4 or a minor version of
  at least 10.
\<close>

theorem check_python_version_rejects_4_0:
  "check_python_version (env\<lparr>sys_version_info := \<lparr>major = 4, minor = 0, micro = 0\<rparr>\<rparr>) v =
     (v\<lparr>out := out v @ [Text (CROSS_MARK @ '' Python version: 4.0.0 (requires 3.10+)'')]\<rparr>,
      False)
   \<and> meets_minimum_3_10 \<lparr>major = 4, minor = 0, micro = 0\<rparr>
   \<and> (snd (check_python_version env v) = meets_minimum_3_10 (sys_version_info env))
       = (major (sys_version_info env) < 4 \<or> 10 \<le> minor (sys_version_info env))"
proof -
  have a: "check_python_version (env\<lparr>sys_version_info := \<lparr>major = 4, minor = 0, micro = 0\<rparr>\<rparr>) v =
     (v\<lparr>out := out v @ [Text (CROSS_MARK @ '' Python version: 4.0.0 (requires 3.10+)'')]\<rparr>,
      False)"
    by (simp add: check_python_version_def print_def str_int_0 str_int_4)
  have b: "meets_minimum_3_10 \<lparr>major = 4, minor = 0, micro = 0\<rparr>"
    by (simp add: meets_minimum_3_10_def)
  have c: "(snd (check_python_version env v) = meets_minimum_3_10 (sys_version_info env))
       = (major (sys_version_info env) < 4 \<or> 10 \<le> minor (sys_version_info env))"
    unfolding check_python_version_result meets_minimum_3_10_def by auto
  from a b c show ?thesis by blast
qed

text \<open>
  C9. The isolated-environment check returns \<open>True\<close> for every environment and leaves the
  errors and both counters as they were. When none of the four indicators holds, it
  records one warning (and prints it); when one holds, it records no warning and prints
  the line naming the environment.
\<close>

theorem check_virtual_environment_returns_True:
  "snd (check_virtual_environment env v) = True
   \<and> errors (fst (check_virtual_environment env v)) = errors v
   \<and> success_count (fst (check_virtual_environment env v)) = success_count v
   \<and> total_checks (fst (check_virtual_environment env v)) = total_checks v
   \<and> (\<not> list_ex (\<lambda>b. b) (venv_indicators env) \<longrightarrow>
        warnings (fst (check_virtual_environment env v)) =
          warnings v @ [''Not running in virtual environment (recommended but not required)'']
        \<and> out (fst (check_virtual_environment env v)) =
          out v @ [Text (WARNING_SIGN
                         @ ''  Not running in virtual environment (recommended but not required)'')])
   \<and> (list_ex (\<lambda>b. b) (venv_indicators env) \<longrightarrow>
        warnings (fst (check_virtual_environment env v)) = warnings v
        \<and> length (out (fst (check_virtual_environment env v))) = length (out v) + 1)"
proof (cases "list_ex (\<lambda>b. b) (venv_indicators env)")
  case True
  then show ?thesis
    by (simp add: check_virtual_environment_def Let_def)
next
  case False
  then have "check_virtual_environment env v =
      (warn_item ''Not running in virtual environment (recommended but not required)'' v, True)"
    by (simp add: check_virtual_environment_def)
  with False show ?thesis
    by (simp add: warn_item_def)
qed

text \<open>Outside a virtual environment, and with \<^verbatim>\<open>VIRTUAL_ENV\<close> set.\<close>

theorem check_virtual_environment_returns_True_witness:
  "check_virtual_environment python_3_9_machine SetupVerifier =
     (SetupVerifier
        \<lparr>warnings := [''Not running in virtual environment (recommended but not required)''],
         out := [Text (WARNING_SIGN
                       @ ''  Not running in virtual environment (recommended but not required)'')]\<rparr>,
      True)
   \<and> check_virtual_environment
        (python_3_9_machine\<lparr>os_environ := (\<lambda>_. None)(''VIRTUAL_ENV'' := Some ''/home/student/venv'')\<rparr>)
        SetupVerifier =
     (SetupVerifier\<lparr>out := [Text (CHECK_MARK @ '' Virtual environment active: /home/student/venv'')]\<rparr>,
      True)"
  using check_virtual_environment_returns_True [of python_3_9_machine SetupVerifier]
    check_virtual_environment_returns_True
      [of "python_3_9_machine\<lparr>os_environ := (\<lambda>_. None)(''VIRTUAL_ENV'' := Some ''/home/student/venv'')\<rparr>"
          SetupVerifier]
  by (simp add: check_virtual_environment_def venv_indicators_def python_3_9_machine_def
      warn_item_def print_def SetupVerifier_def Let_def)

subsection \<open>The run and the exit status\<close>

lemma all_checks_pass_run:
  assumes "all_checks_pass env"
  shows "\<exists>v. run_all_checks env SetupVerifier = (v, Inr True) \<and> errors v = []
             \<and> total_checks v = 6"
proof -
  have t0: "total_checks SetupVerifier \<noteq> - 6" and e0: "errors SetupVerifier = []"
    and z0: "total_checks SetupVerifier = 0"
    by (simp_all add: SetupVerifier_def)
  obtain v b where run: "run_all_checks env SetupVerifier = (v, Inr b)"
    using run_all_checks_returns_iff [OF t0, of env] all_checks_pass_not_interrupted [OF assms]
    by blast
  show ?thesis
    using run run_all_checks_Inr [OF run] assms e0 z0 by simp
qed

lemma python_3_9_machine_passes: "all_checks_pass python_3_9_machine"
  by (simp add: all_checks_pass_def python_3_9_machine_def check_file_permissions_def
      check_essential_packages_def check_packages_def essential_packages_def
      check_package_import_def check_data_manipulation_def check_visualization_def
      check_network_connectivity_def run_security_simulation_def)

text \<open>
  C7. \<open>run_all_checks\<close> calls the interpreter-version check and the isolated-environment
  check directly, not through \<open>check_item\<close>: whatever they return, they leave
  \<open>total_checks\<close>, \<open>success_count\<close> and the errors unchanged. So when the interpreter-version
  check returns \<open>False\<close> and the six counted checks pass, the run ends with no error and six
  checks counted, and the exit status is 0.
\<close>

theorem direct_checks_not_counted:
  "errors (fst (check_python_version env v)) = errors v
   \<and> success_count (fst (check_python_version env v)) = success_count v
   \<and> total_checks (fst (check_python_version env v)) = total_checks v
   \<and> errors (fst (check_virtual_environment env v)) = errors v
   \<and> success_count (fst (check_virtual_environment env v)) = success_count v
   \<and> total_checks (fst (check_virtual_environment env v)) = total_checks v
   \<and> (\<not> (3 \<le> major (sys_version_info env) \<and> 10 \<le> minor (sys_version_info env))
        \<and> all_checks_pass env \<and> (\<exists>cwd. os_getcwd env = Inr cwd) \<longrightarrow>
        snd (check_python_version env v) = False
        \<and> (\<exists>v'. run_all_checks env SetupVerifier = (v', Inr True) \<and> errors v' = []
                  \<and> total_checks v' = 6)
        \<and> snd (main env) = 0)"
  using all_checks_pass_run [of env]
  by (simp add: check_python_version_result main_status)

text \<open>Python 3.9.7, too old for the course, with everything else in place.\<close>

theorem direct_checks_not_counted_witness:
  "snd (check_python_version python_3_9_machine SetupVerifier) = False
   \<and> errors (fst (run_all_checks python_3_9_machine SetupVerifier)) = []
   \<and> total_checks (fst (run_all_checks python_3_9_machine SetupVerifier)) = 6
   \<and> snd (main python_3_9_machine) = 0"
  using direct_checks_not_counted [of python_3_9_machine SetupVerifier] python_3_9_machine_passes
  by (auto simp add: python_3_9_machine_def)





subsection \<open>The required packages\<close>




subsection \<open>Warnings\<close>

text \<open>
  C10. For every description, \<open>warn_item\<close> appends exactly one entry, the description, to
  the list of warnings and leaves the success counter, the counter of attempted checks
  and the list of errors as they were, so a warning never changes whether the run passes.
\<close>

theorem warn_item_frame:
  "warnings (warn_item description v) = warnings v @ [description]
   \<and> length (warnings (warn_item description v)) = length (warnings v) + 1
   \<and> success_count (warn_item description v) = success_count v
   \<and> total_checks (warn_item description v) = total_checks v
   \<and> errors (warn_item description v) = errors v"
proof -
  have "warn_item description v =
          v\<lparr>out := out v @ [Text (WARNING_SIGN @ ''  '' @ description)],
            warnings := warnings v @ [description]\<rparr>"
    by (simp add: warn_item_def print_def)
  then show ?thesis by simp
qed

end
